theory Spec2Isabelle
  imports Main "HOL-Library.Word"
begin

section \<open>Avatar upload and retrieval (app/main.py)\<close>

text \<open>
  The module keeps two pieces of mutable state: the in-memory dictionary \<open>USERS\<close> and the
  files below \<open>AVATAR_DIR\<close>. Both are fields of one state record that every handler takes
  and returns. A Python \<open>str\<close> is a \<open>string\<close>, \<open>bytes\<close> is a list of 8-bit words, a raised
  exception is the \<open>Inl\<close> side of a sum. The hexadecimal token that \<open>uuid4().hex\<close> draws is
  an argument of the upload handler.

  The disk is a map from the path, as the string \<open>os.path.join\<close> builds, to the content of
  the file: a write to a path creates or replaces the file there and does not fail, and
  two different strings are two different files. The handlers run one at a time, each
  from its first line to its last; log lines are left out.
\<close>

subsection \<open>Data\<close>

type_synonym bytes = "8 word list"

text \<open>\<open>class User(BaseModel)\<close>, also the shape of the dictionaries stored in \<open>USERS\<close>.\<close>

record user =
  id_field :: string
  username :: string
  avatar_filename :: "string option"

text \<open>The \<open>UploadFile\<close> of the request: declared name, declared media type, and what
  \<open>await file.read()\<close> returns.\<close>

record upload_file =
  filename :: string
  content_type :: "string option"
  file_read :: bytes

text \<open>\<open>class AvatarUploadResponse(BaseModel)\<close>.\<close>

record avatar_upload_response =
  message :: string
  avatar_url :: string
  user_id :: string

text \<open>The arguments of the \<open>FileResponse\<close> that retrieval returns.\<close>

record file_response =
  response_path :: string
  media_type :: string
  response_filename :: string

text \<open>\<open>USERS\<close> is the dictionary of user records; \<open>disk\<close> maps a path to the content of
  the file stored there.\<close>

record state =
  USERS :: "string \<rightharpoonup> user"
  disk :: "string \<rightharpoonup> bytes"

datatype error =
    HTTPException (status_code: nat) (detail: string)
  | KeyError string
  | FileNotFoundError string

subsection \<open>Constants\<close>

definition AVATAR_DIR :: string where
  "AVATAR_DIR = ''./avatars''"

definition ALLOWED_MIME_TYPES :: "string set" where
  "ALLOWED_MIME_TYPES = {''image/jpeg'', ''image/png''}"

definition MAX_AVATAR_SIZE :: nat where
  "MAX_AVATAR_SIZE = 2 * 1024 * 1024"

text \<open>The dictionary \<open>USERS\<close> as the module creates it.\<close>

definition USERS_initial :: "string \<rightharpoonup> user" where
  "USERS_initial =
     [''u1'' \<mapsto> \<lparr>id_field = ''u1'', username = ''alice'', avatar_filename = None\<rparr>,
      ''u2'' \<mapsto> \<lparr>id_field = ''u2'', username = ''bob'', avatar_filename = None\<rparr>]"

subsection \<open>Library functions the handlers call\<close>

text \<open>\<open>str.lower\<close> on the letters A to Z; every other character is left as it is.\<close>

definition lower_char :: "char \<Rightarrow> char" where
  "lower_char c =
     (case map_of (zip ''ABCDEFGHIJKLMNOPQRSTUVWXYZ'' ''abcdefghijklmnopqrstuvwxyz'') c of
        None \<Rightarrow> c
      | Some d \<Rightarrow> d)"

definition lower :: "string \<Rightarrow> string" where
  "lower s = map lower_char s"

text \<open>\<open>str.rfind\<close> for a single character: the index of its last occurrence, or \<open>-1\<close>.\<close>

definition rfind :: "string \<Rightarrow> char \<Rightarrow> int" where
  "rfind p c =
     (if c \<in> set p
      then int (length p) - 1 - int (length (takeWhile (\<lambda>x. x \<noteq> c) (rev p)))
      else - 1)"

text \<open>The loop of \<open>genericpath._splitext\<close> that skips leading dots: it answers whether a
  character other than the dot stands between the start of the last path component and
  the last dot.\<close>

function splitext_scan :: "string \<Rightarrow> int \<Rightarrow> int \<Rightarrow> bool" where
  "splitext_scan p filenameIndex dotIndex =
     (if filenameIndex < dotIndex then
        (if take 1 (drop (nat filenameIndex) p) \<noteq> ''.'' then True
         else splitext_scan p (filenameIndex + 1) dotIndex)
      else False)"
  by pat_completeness auto
termination
  by (relation "measure (\<lambda>(p, i, d). nat (d - i))") auto

declare splitext_scan.simps [simp del]

text \<open>\<open>os.path.splitext\<close> (posixpath): root and extension of a path.\<close>

definition splitext :: "string \<Rightarrow> string \<times> string" where
  "splitext p =
     (let sepIndex = rfind p (CHR ''/'');
          dotIndex = rfind p (CHR ''.'')
      in if dotIndex > sepIndex \<and> splitext_scan p (sepIndex + 1) dotIndex
         then (take (nat dotIndex) p, drop (nat dotIndex) p)
         else (p, []))"

text \<open>\<open>os.path.join\<close> (posixpath) of two components.\<close>

definition os_path_join :: "string \<Rightarrow> string \<Rightarrow> string" where
  "os_path_join a b =
     (if take 1 b = ''/'' then b
      else if a = [] \<or> (a \<noteq> [] \<and> last a = CHR ''/'') then a @ b
      else a @ ''/'' @ b)"

text \<open>\<open>str.endswith\<close>.\<close>

definition endswith :: "string \<Rightarrow> string \<Rightarrow> bool" where
  "endswith s suf = (length suf \<le> length s \<and> drop (length s - length suf) s = suf)"

text \<open>\<open>os.path.exists\<close> and \<open>os.remove\<close> on the modelled disk; removing a path that is not
  there raises.\<close>

definition os_path_exists :: "string \<Rightarrow> state \<Rightarrow> bool" where
  "os_path_exists p s = (case disk s p of None \<Rightarrow> False | Some _ \<Rightarrow> True)"

definition os_remove :: "string \<Rightarrow> state \<Rightarrow> error + state" where
  "os_remove p s =
     (case disk s p of
        None \<Rightarrow> Inl (FileNotFoundError p)
      | Some _ \<Rightarrow> Inr (s\<lparr>disk := (disk s)(p := None)\<rparr>))"

subsection \<open>Dependencies\<close>

text \<open>\<open>get_current_user\<close>: the token is the user id. The stored dictionaries are never
  empty, so \<open>not user\<close> holds exactly when \<open>USERS.get\<close> returned \<open>None\<close>.\<close>

definition get_current_user :: "string \<Rightarrow> state \<Rightarrow> error + user" where
  "get_current_user token s =
     (case USERS s token of
        None \<Rightarrow> Inl (HTTPException 401 ''Invalid authentication token.'')
      | Some user \<Rightarrow> Inr user)"

definition get_user_by_id :: "string \<Rightarrow> state \<Rightarrow> error + user" where
  "get_user_by_id uid s =
     (case USERS s uid of
        None \<Rightarrow> Inl (HTTPException 404 ''User not found.'')
      | Some user \<Rightarrow> Inr user)"

subsection \<open>Upload\<close>

text \<open>\<open>file.content_type not in ALLOWED_MIME_TYPES\<close>; a missing content type is in no set
  of strings.\<close>

definition allowed_mime :: "string option \<Rightarrow> bool" where
  "allowed_mime ct = (case ct of None \<Rightarrow> False | Some t \<Rightarrow> t \<in> ALLOWED_MIME_TYPES)"

text \<open>Lines 109 to 111: the extension kept for the stored file and the name of that file.\<close>

definition safe_ext :: "upload_file \<Rightarrow> string" where
  "safe_ext file =
     (let ext = lower (snd (splitext (filename file)))
      in if ext \<in> set [''.png'', ''.jpg'', ''.jpeg''] then ext
         else (if content_type file = Some ''image/jpeg'' then ''.jpg'' else ''.png''))"

definition new_filename :: "upload_file \<Rightarrow> user \<Rightarrow> string \<Rightarrow> string" where
  "new_filename file current_user uuid4_hex =
     id_field current_user @ ''_'' @ uuid4_hex @ safe_ext file"

text \<open>Lines 116 to 121: the old file is removed when \<open>old_filename\<close> is truthy (neither
  \<open>None\<close> nor the empty string); whatever \<open>os.remove\<close> raises is swallowed.\<close>

definition remove_old_avatar :: "string option \<Rightarrow> state \<Rightarrow> state" where
  "remove_old_avatar old_filename s =
     (case old_filename of
        None \<Rightarrow> s
      | Some old \<Rightarrow>
          if old = [] then s
          else (let old_path = os_path_join AVATAR_DIR old
                in case os_remove old_path s of Inl _ \<Rightarrow> s | Inr s' \<Rightarrow> s'))"

text \<open>Lines 123 and 124: the file is opened for writing and the content written.\<close>

definition save_new_file :: "string \<Rightarrow> bytes \<Rightarrow> state \<Rightarrow> state" where
  "save_new_file file_path contents s = s\<lparr>disk := (disk s)(file_path \<mapsto> contents)\<rparr>"

text \<open>Line 125: \<open>USERS[current_user.id]["avatar_filename"] = filename\<close>.\<close>

definition set_avatar_filename :: "string \<Rightarrow> string \<Rightarrow> state \<Rightarrow> error + state" where
  "set_avatar_filename uid name s =
     (case USERS s uid of
        None \<Rightarrow> Inl (KeyError uid)
      | Some rec \<Rightarrow> Inr (s\<lparr>USERS := (USERS s)(uid \<mapsto> rec\<lparr>avatar_filename := Some name\<rparr>)\<rparr>))"

text \<open>The handler \<open>upload_avatar\<close>. It returns the response or the exception raised,
  and the state it leaves behind.\<close>

definition upload_avatar ::
  "upload_file \<Rightarrow> user \<Rightarrow> string \<Rightarrow> state \<Rightarrow> (error + avatar_upload_response) \<times> state" where
  "upload_avatar file current_user uuid4_hex s =
     (if \<not> allowed_mime (content_type file) then
        (Inl (HTTPException 400 ''Only PNG and JPEG images are allowed.''), s)
      else
        let contents = file_read file in
        if length contents > MAX_AVATAR_SIZE then
          (Inl (HTTPException 413 ''Avatar image is too large.''), s)
        else
          let fname = new_filename file current_user uuid4_hex;
              file_path = os_path_join AVATAR_DIR fname
          in case USERS s (id_field current_user) of
               None \<Rightarrow> (Inl (KeyError (id_field current_user)), s)
             | Some rec \<Rightarrow>
                 let s1 = remove_old_avatar (avatar_filename rec) s;
                     s2 = save_new_file file_path contents s1
                 in (case set_avatar_filename (id_field current_user) fname s2 of
                       Inl e \<Rightarrow> (Inl e, s2)
                     | Inr s3 \<Rightarrow>
                         (Inr \<lparr>message = ''Avatar uploaded successfully.'',
                               avatar_url = ''/users/'' @ id_field current_user @ ''/avatar'',
                               user_id = id_field current_user\<rparr>, s3)))"

text \<open>The states the handler passes through, in order: the state it starts in and the
  state after each mutation it performs (removal of the old file, write of the new file,
  update of \<open>USERS\<close>).\<close>

definition upload_avatar_states ::
  "upload_file \<Rightarrow> user \<Rightarrow> string \<Rightarrow> state \<Rightarrow> state list" where
  "upload_avatar_states file current_user uuid4_hex s =
     (if \<not> allowed_mime (content_type file) then [s]
      else
        let contents = file_read file in
        if length contents > MAX_AVATAR_SIZE then [s]
        else
          let fname = new_filename file current_user uuid4_hex;
              file_path = os_path_join AVATAR_DIR fname
          in case USERS s (id_field current_user) of
               None \<Rightarrow> [s]
             | Some rec \<Rightarrow>
                 let s1 = remove_old_avatar (avatar_filename rec) s;
                     s2 = save_new_file file_path contents s1
                 in (case set_avatar_filename (id_field current_user) fname s2 of
                       Inl e \<Rightarrow> [s, s1, s2]
                     | Inr s3 \<Rightarrow> [s, s1, s2, s3]))"

text \<open>The route \<open>POST /users/me/avatar\<close>: the dependency \<open>get_current_user\<close> runs first,
  and the handler runs only when it returned a user.\<close>

definition post_users_me_avatar ::
  "string \<Rightarrow> upload_file \<Rightarrow> string \<Rightarrow> state \<Rightarrow> (error + avatar_upload_response) \<times> state" where
  "post_users_me_avatar token file uuid4_hex s =
     (case get_current_user token s of
        Inl e \<Rightarrow> (Inl e, s)
      | Inr current_user \<Rightarrow> upload_avatar file current_user uuid4_hex s)"

subsection \<open>Retrieval\<close>

text \<open>The handler \<open>get_user_avatar\<close>.\<close>

definition get_user_avatar :: "string \<Rightarrow> state \<Rightarrow> error + file_response" where
  "get_user_avatar uid s =
     (case get_user_by_id uid s of
        Inl e \<Rightarrow> Inl e
      | Inr user \<Rightarrow>
          (case avatar_filename user of
             None \<Rightarrow> Inl (HTTPException 404 ''User has no avatar.'')
           | Some fname \<Rightarrow>
               if fname = [] then Inl (HTTPException 404 ''User has no avatar.'')
               else
                 let file_path = os_path_join AVATAR_DIR fname in
                 if \<not> os_path_exists file_path s then
                   Inl (HTTPException 404 ''Avatar file not found.'')
                 else
                   Inr \<lparr>response_path = file_path,
                        media_type = (if endswith fname ''.png'' then ''image/png''
                                      else ''image/jpeg''),
                        response_filename = fname\<rparr>))"

text \<open>The body a \<open>FileResponse\<close> sends: the content of the file at its path.\<close>

definition response_body :: "file_response \<Rightarrow> state \<Rightarrow> bytes option" where
  "response_body r s = disk s (response_path r)"

subsection \<open>The state at start-up\<close>

text \<open>When the module has been loaded, \<open>USERS\<close> is the dictionary above and the avatar
  directory holds whatever files were there before.\<close>

definition initial_state :: "(string \<rightharpoonup> bytes) \<Rightarrow> state" where
  "initial_state files = \<lparr>USERS = USERS_initial, disk = files\<rparr>"

subsection \<open>Consistency of the avatar pointer\<close>

text \<open>The avatar pointer of a user is valid in a state when it is unset (\<open>None\<close> or the
  empty string, which the handlers treat alike) or names a file that exists in the avatar
  directory.\<close>

definition avatar_pointer_valid :: "string \<Rightarrow> state \<Rightarrow> bool" where
  "avatar_pointer_valid uid s =
     (case USERS s uid of
        None \<Rightarrow> True
      | Some rec \<Rightarrow>
          (case avatar_filename rec of
             None \<Rightarrow> True
           | Some fname \<Rightarrow>
               if fname = [] then True else os_path_exists (os_path_join AVATAR_DIR fname) s))"

subsection \<open>Names of stored files\<close>

text \<open>What \<open>uuid4().hex\<close> returns: 32 hexadecimal digits in lower case.\<close>

definition is_uuid4_hex :: "string \<Rightarrow> bool" where
  "is_uuid4_hex h = (length h = 32 \<and> list_all (\<lambda>c. c \<in> set ''0123456789abcdef'') h)"

text \<open>The form line 111 gives to the name of a stored file: the user id, an underscore, a
  token and one of the three extensions. A name of this form for the user \<open>uid\<close> is read
  prefix first: the id and the underscore, then 32 digits, then the extension.\<close>

definition blob_named_for :: "string \<Rightarrow> string \<Rightarrow> bool" where
  "blob_named_for uid fname =
     (let n = length uid + 1; rest = drop n fname
      in take n fname = uid @ ''_'' \<and> is_uuid4_hex (take 32 rest) \<and>
         drop 32 rest \<in> set [''.png'', ''.jpg'', ''.jpeg''])"

text \<open>The directory is well formed when every record is stored under its own id and
  every avatar pointer has the form above for the user it belongs to.\<close>

definition directory_wf :: "state \<Rightarrow> bool" where
  "directory_wf s =
     (\<forall>uid rec. USERS s uid = Some rec \<longrightarrow>
        id_field rec = uid \<and>
        (case avatar_filename rec of None \<Rightarrow> True | Some old \<Rightarrow> blob_named_for uid old))"

subsection \<open>Sequences of uploads\<close>


text \<open>The name (line 111) and the path (line 112) of the file stored for a request of the
  user \<open>uid\<close>, and whether a request was answered with a response.\<close>

definition stored_name :: "string \<Rightarrow> upload_file \<times> string \<Rightarrow> string" where
  "stored_name uid req = uid @ ''_'' @ snd req @ safe_ext (fst req)"

definition stored_path :: "string \<Rightarrow> upload_file \<times> string \<Rightarrow> string" where
  "stored_path uid req = os_path_join AVATAR_DIR (stored_name uid req)"


subsection \<open>Example states\<close>

text \<open>A state in which the user u1 has uploaded an avatar before, and a state in which the
  pointer of u1 names a file that is not on the disk.\<close>

definition alice_with_avatar :: user where
  "alice_with_avatar =
     \<lparr>id_field = ''u1'', username = ''alice'', avatar_filename = Some ''u1_0a.png''\<rparr>"

definition state_with_avatar :: state where
  "state_with_avatar =
     \<lparr>USERS = USERS_initial(''u1'' \<mapsto> alice_with_avatar),
      disk = [''./avatars/u1_0a.png'' \<mapsto> [7, 8, 9]]\<rparr>"

definition stale_state :: state where
  "stale_state =
     \<lparr>USERS = [''u1'' \<mapsto> \<lparr>id_field = ''u1'', username = ''alice'',
                          avatar_filename = Some ''u1_0f.png''\<rparr>,
               ''u2'' \<mapsto> \<lparr>id_field = ''u2'', username = ''bob'', avatar_filename = None\<rparr>],
      disk = Map.empty\<rparr>"

text \<open>Two tokens, two uploads, and a state in which both users have an avatar whose name
  has the form of line 111.\<close>

definition example_hex_a :: string where
  "example_hex_a = ''0123456789abcdef0123456789abcdef''"

definition example_hex_b :: string where
  "example_hex_b = ''fedcba9876543210fedcba9876543210''"


definition example_jpeg :: upload_file where
  "example_jpeg =
     \<lparr>filename = ''next.jpg'', content_type = Some ''image/jpeg'', file_read = [4, 5, 6]\<rparr>"

definition alice_named :: user where
  "alice_named =
     \<lparr>id_field = ''u1'', username = ''alice'',
      avatar_filename = Some (''u1_'' @ example_hex_a @ ''.png'')\<rparr>"

definition bob_named :: user where
  "bob_named =
     \<lparr>id_field = ''u2'', username = ''bob'',
      avatar_filename = Some (''u2_'' @ example_hex_a @ ''.jpg'')\<rparr>"

definition state_two_avatars :: state where
  "state_two_avatars =
     \<lparr>USERS = [''u1'' \<mapsto> alice_named, ''u2'' \<mapsto> bob_named],
      disk = [os_path_join AVATAR_DIR (''u1_'' @ example_hex_a @ ''.png'') \<mapsto> [1, 2, 3],
              os_path_join AVATAR_DIR (''u2_'' @ example_hex_a @ ''.jpg'') \<mapsto> [7, 8]]\<rparr>"

section \<open>Properties\<close>

subsection \<open>What each step of the upload does to the state\<close>

lemma remove_old_avatar_USERS: "USERS (remove_old_avatar old s) = USERS s"
  by (simp add: remove_old_avatar_def os_remove_def Let_def split: option.splits)

lemma remove_old_avatar_disk:
  "disk (remove_old_avatar old s) =
     (case old of None \<Rightarrow> disk s
      | Some f \<Rightarrow> if f = [] then disk s else (disk s)(os_path_join AVATAR_DIR f := None))"
  by (auto simp add: remove_old_avatar_def os_remove_def Let_def split: option.splits)

lemma save_new_file_USERS: "USERS (save_new_file p c s) = USERS s"
  by (simp add: save_new_file_def)

lemma save_new_file_disk: "disk (save_new_file p c s) = (disk s)(p \<mapsto> c)"
  by (simp add: save_new_file_def)

lemma upload_avatar_invalid_mime:
  "\<not> allowed_mime (content_type file) \<Longrightarrow>
   upload_avatar file u h s =
     (Inl (HTTPException 400 ''Only PNG and JPEG images are allowed.''), s)"
  by (simp add: upload_avatar_def)

lemma upload_avatar_too_large:
  "allowed_mime (content_type file) \<Longrightarrow> length (file_read file) > MAX_AVATAR_SIZE \<Longrightarrow>
   upload_avatar file u h s = (Inl (HTTPException 413 ''Avatar image is too large.''), s)"
  by (simp add: upload_avatar_def)

lemma upload_avatar_key_error:
  "allowed_mime (content_type file) \<Longrightarrow> length (file_read file) \<le> MAX_AVATAR_SIZE \<Longrightarrow>
   USERS s (id_field u) = None \<Longrightarrow>
   upload_avatar file u h s = (Inl (KeyError (id_field u)), s)"
  by (simp add: upload_avatar_def Let_def)

lemma upload_avatar_success:
  "allowed_mime (content_type file) \<Longrightarrow> length (file_read file) \<le> MAX_AVATAR_SIZE \<Longrightarrow>
   USERS s (id_field u) = Some rec \<Longrightarrow>
   upload_avatar file u h s =
     (Inr \<lparr>message = ''Avatar uploaded successfully.'',
           avatar_url = ''/users/'' @ id_field u @ ''/avatar'',
           user_id = id_field u\<rparr>,
      (save_new_file (os_path_join AVATAR_DIR (new_filename file u h)) (file_read file)
         (remove_old_avatar (avatar_filename rec) s))
       \<lparr>USERS := (USERS s)(id_field u \<mapsto> rec\<lparr>avatar_filename := Some (new_filename file u h)\<rparr>)\<rparr>)"
  by (simp add: upload_avatar_def Let_def set_avatar_filename_def
      save_new_file_USERS remove_old_avatar_USERS)

lemma upload_avatar_error_state:
  "upload_avatar file u h s = (Inl e, s') \<Longrightarrow> s' = s"
  by (auto simp: upload_avatar_def Let_def set_avatar_filename_def save_new_file_USERS
      remove_old_avatar_USERS split: if_splits option.splits)

lemma upload_avatar_error_kind:
  "upload_avatar file u h s = (Inl e, s') \<Longrightarrow>
   e = HTTPException 400 ''Only PNG and JPEG images are allowed.'' \<or>
   e = HTTPException 413 ''Avatar image is too large.'' \<or>
   e = KeyError (id_field u)"
  by (auto simp: upload_avatar_def Let_def set_avatar_filename_def save_new_file_USERS
      remove_old_avatar_USERS split: if_splits option.splits)

subsection \<open>Rejected uploads\<close>

lemma allowed_mime_iff:
  "allowed_mime ct \<longleftrightarrow> ct \<in> {Some ''image/jpeg'', Some ''image/png''}"
  by (cases ct) (auto simp: allowed_mime_def ALLOWED_MIME_TYPES_def)

lemma post_unauthenticated:
  "USERS s token = None \<Longrightarrow>
   post_users_me_avatar token file h s =
     (Inl (HTTPException 401 ''Invalid authentication token.''), s)"
  by (simp add: post_users_me_avatar_def get_current_user_def)

lemma post_authenticated:
  "USERS s token = Some u \<Longrightarrow>
   post_users_me_avatar token file h s = upload_avatar file u h s"
  by (simp add: post_users_me_avatar_def get_current_user_def)

text \<open>
  Claim C2. An upload that fails leaves the state as it was. An unknown token is answered
  with 401, a declared media type other than image/jpeg and image/png with 400, a payload
  longer than the ceiling with 413, and whatever exception the route raises, the state it
  returns is the state it was given: no file is created or removed and \<open>USERS\<close> is
  unchanged.
\<close>

theorem rejected_upload_mutates_nothing:
  "(USERS s token = None \<longrightarrow>
      post_users_me_avatar token file h s =
        (Inl (HTTPException 401 ''Invalid authentication token.''), s)) \<and>
   (USERS s token \<noteq> None \<and> content_type file \<notin> {Some ''image/jpeg'', Some ''image/png''} \<longrightarrow>
      post_users_me_avatar token file h s =
        (Inl (HTTPException 400 ''Only PNG and JPEG images are allowed.''), s)) \<and>
   (USERS s token \<noteq> None \<and> content_type file \<in> {Some ''image/jpeg'', Some ''image/png''} \<and>
    length (file_read file) > MAX_AVATAR_SIZE \<longrightarrow>
      post_users_me_avatar token file h s =
        (Inl (HTTPException 413 ''Avatar image is too large.''), s)) \<and>
   (\<forall>e s'. post_users_me_avatar token file h s = (Inl e, s') \<longrightarrow>
      s' = s \<and> USERS s' = USERS s \<and> disk s' = disk s)"
proof (intro conjI impI allI)
  assume "USERS s token = None"
  then show "post_users_me_avatar token file h s =
      (Inl (HTTPException 401 ''Invalid authentication token.''), s)"
    by (rule post_unauthenticated)
next
  assume "USERS s token \<noteq> None \<and> content_type file \<notin> {Some ''image/jpeg'', Some ''image/png''}"
  then obtain u where "USERS s token = Some u" and "\<not> allowed_mime (content_type file)"
    by (auto simp: allowed_mime_iff)
  then show "post_users_me_avatar token file h s =
      (Inl (HTTPException 400 ''Only PNG and JPEG images are allowed.''), s)"
    by (simp add: post_authenticated upload_avatar_invalid_mime)
next
  assume "USERS s token \<noteq> None \<and> content_type file \<in> {Some ''image/jpeg'', Some ''image/png''} \<and>
    length (file_read file) > MAX_AVATAR_SIZE"
  then obtain u where "USERS s token = Some u" and "allowed_mime (content_type file)"
    and "length (file_read file) > MAX_AVATAR_SIZE"
    by (auto simp: allowed_mime_iff)
  then show "post_users_me_avatar token file h s =
      (Inl (HTTPException 413 ''Avatar image is too large.''), s)"
    by (simp add: post_authenticated upload_avatar_too_large)
next
  fix e s'
  assume failed: "post_users_me_avatar token file h s = (Inl e, s')"
  have "s' = s"
  proof (cases "USERS s token")
    case None
    with failed show ?thesis by (simp add: post_unauthenticated)
  next
    case (Some u)
    with failed have "upload_avatar file u h s = (Inl e, s')"
      by (simp add: post_authenticated)
    then show ?thesis by (rule upload_avatar_error_state)
  qed
  then show "s' = s" and "USERS s' = USERS s" and "disk s' = disk s" by simp_all
qed



theorem rejected_upload_mutates_nothing_witness:
  "post_users_me_avatar ''u9''
     \<lparr>filename = ''pic.png'', content_type = Some ''image/png'', file_read = [1, 2, 3]\<rparr>
     ''0f'' (initial_state Map.empty) =
     (Inl (HTTPException 401 ''Invalid authentication token.''), initial_state Map.empty) \<and>
   post_users_me_avatar ''u1''
     \<lparr>filename = ''pic.gif'', content_type = Some ''image/gif'', file_read = [1, 2, 3]\<rparr>
     ''0f'' (initial_state Map.empty) =
     (Inl (HTTPException 400 ''Only PNG and JPEG images are allowed.''),
      initial_state Map.empty) \<and>
   post_users_me_avatar ''u1''
     \<lparr>filename = ''pic.jpg'', content_type = Some ''image/jpeg'',
      file_read = replicate 3145728 0\<rparr>
     ''0f'' (initial_state Map.empty) =
     (Inl (HTTPException 413 ''Avatar image is too large.''), initial_state Map.empty)"
proof (intro conjI)
  show "post_users_me_avatar ''u9''
     \<lparr>filename = ''pic.png'', content_type = Some ''image/png'', file_read = [1, 2, 3]\<rparr>
     ''0f'' (initial_state Map.empty) =
     (Inl (HTTPException 401 ''Invalid authentication token.''), initial_state Map.empty)"
    using rejected_upload_mutates_nothing [of "initial_state Map.empty" "''u9''"
      "\<lparr>filename = ''pic.png'', content_type = Some ''image/png'', file_read = [1, 2, 3]\<rparr>"
      "''0f''"]
    by (simp add: initial_state_def USERS_initial_def)
next
  show "post_users_me_avatar ''u1''
     \<lparr>filename = ''pic.gif'', content_type = Some ''image/gif'', file_read = [1, 2, 3]\<rparr>
     ''0f'' (initial_state Map.empty) =
     (Inl (HTTPException 400 ''Only PNG and JPEG images are allowed.''),
      initial_state Map.empty)"
    using rejected_upload_mutates_nothing [of "initial_state Map.empty" "''u1''"
      "\<lparr>filename = ''pic.gif'', content_type = Some ''image/gif'', file_read = [1, 2, 3]\<rparr>"
      "''0f''"]
    by (simp add: initial_state_def USERS_initial_def)
next
  show "post_users_me_avatar ''u1''
     \<lparr>filename = ''pic.jpg'', content_type = Some ''image/jpeg'',
      file_read = replicate 3145728 0\<rparr>
     ''0f'' (initial_state Map.empty) =
     (Inl (HTTPException 413 ''Avatar image is too large.''), initial_state Map.empty)"
    using rejected_upload_mutates_nothing [of "initial_state Map.empty" "''u1''"
      "\<lparr>filename = ''pic.jpg'', content_type = Some ''image/jpeg'',
        file_read = replicate 3145728 0\<rparr>" "''0f''"]
    by (simp add: initial_state_def USERS_initial_def MAX_AVATAR_SIZE_def)
qed

text \<open>
  Claim C3. For an authenticated caller the media type is checked before the size: a
  declared type outside image/jpeg and image/png is answered with 400 whatever the length
  of the payload, and an accepted type with a payload longer than the ceiling is answered
  with 413.
\<close>

theorem media_type_checked_before_size:
  assumes "USERS s token = Some u"
  shows "(content_type file \<notin> {Some ''image/jpeg'', Some ''image/png''} \<longrightarrow>
            fst (post_users_me_avatar token file h s) =
              Inl (HTTPException 400 ''Only PNG and JPEG images are allowed.'')) \<and>
         (content_type file \<in> {Some ''image/jpeg'', Some ''image/png''} \<and>
          length (file_read file) > MAX_AVATAR_SIZE \<longrightarrow>
            fst (post_users_me_avatar token file h s) =
              Inl (HTTPException 413 ''Avatar image is too large.''))"
  using assms
  by (simp add: post_authenticated upload_avatar_invalid_mime upload_avatar_too_large
      allowed_mime_iff)

theorem media_type_checked_before_size_witness:
  "fst (post_users_me_avatar ''u1''
     \<lparr>filename = ''pic.gif'', content_type = Some ''image/gif'',
      file_read = replicate 3145728 0\<rparr>
     ''0f'' (initial_state Map.empty)) =
     Inl (HTTPException 400 ''Only PNG and JPEG images are allowed.'') \<and>
   fst (post_users_me_avatar ''u1''
     \<lparr>filename = ''pic.png'', content_type = Some ''image/png'',
      file_read = replicate 3145728 0\<rparr>
     ''0f'' (initial_state Map.empty)) =
     Inl (HTTPException 413 ''Avatar image is too large.'')"
proof (intro conjI)
  have auth: "USERS (initial_state Map.empty) ''u1'' =
      Some \<lparr>id_field = ''u1'', username = ''alice'', avatar_filename = None\<rparr>"
    by (simp add: initial_state_def USERS_initial_def)
  show "fst (post_users_me_avatar ''u1''
     \<lparr>filename = ''pic.gif'', content_type = Some ''image/gif'',
      file_read = replicate 3145728 0\<rparr>
     ''0f'' (initial_state Map.empty)) =
     Inl (HTTPException 400 ''Only PNG and JPEG images are allowed.'')"
    using media_type_checked_before_size [OF auth,
      of "\<lparr>filename = ''pic.gif'', content_type = Some ''image/gif'',
        file_read = replicate 3145728 0\<rparr>" "''0f''"]
    by simp
  show "fst (post_users_me_avatar ''u1''
     \<lparr>filename = ''pic.png'', content_type = Some ''image/png'',
      file_read = replicate 3145728 0\<rparr>
     ''0f'' (initial_state Map.empty)) =
     Inl (HTTPException 413 ''Avatar image is too large.'')"
    using media_type_checked_before_size [OF auth,
      of "\<lparr>filename = ''pic.png'', content_type = Some ''image/png'',
        file_read = replicate 3145728 0\<rparr>" "''0f''"]
    by (simp add: MAX_AVATAR_SIZE_def)
qed

text \<open>
  Claim C6. The ceiling is 2 * 1024 * 1024 = 2097152 bytes, and for an authenticated caller
  and an accepted media type the upload is answered with 413 exactly when the payload is
  strictly longer than that; a payload of exactly 2097152 bytes is not rejected for its
  size.
\<close>

theorem size_ceiling_is_strict:
  assumes "USERS s token = Some u"
    and "content_type file \<in> {Some ''image/jpeg'', Some ''image/png''}"
  shows "MAX_AVATAR_SIZE = 2097152 \<and>
         (fst (post_users_me_avatar token file h s) =
            Inl (HTTPException 413 ''Avatar image is too large.'')
          \<longleftrightarrow> length (file_read file) > 2097152)"
proof
  show max: "MAX_AVATAR_SIZE = 2097152" by (simp add: MAX_AVATAR_SIZE_def)
  have ok: "allowed_mime (content_type file)" using assms(2) by (simp add: allowed_mime_iff)
  show "fst (post_users_me_avatar token file h s) =
            Inl (HTTPException 413 ''Avatar image is too large.'')
          \<longleftrightarrow> length (file_read file) > 2097152"
  proof (cases "length (file_read file) > MAX_AVATAR_SIZE")
    case True
    then show ?thesis
      using assms(1) ok max by (simp add: post_authenticated upload_avatar_too_large)
  next
    case False
    then have le: "length (file_read file) \<le> MAX_AVATAR_SIZE" by simp
    have "fst (upload_avatar file u h s) \<noteq> Inl (HTTPException 413 ''Avatar image is too large.'')"
    proof (cases "USERS s (id_field u)")
      case None
      then show ?thesis by (simp add: upload_avatar_key_error [OF ok le])
    next
      case (Some r)
      then show ?thesis by (simp add: upload_avatar_success [OF ok le])
    qed
    then show ?thesis using assms(1) False max by (simp add: post_authenticated)
  qed
qed

theorem size_ceiling_is_strict_witness:
  "fst (post_users_me_avatar ''u1''
     \<lparr>filename = ''pic.png'', content_type = Some ''image/png'',
      file_read = replicate 2097152 0\<rparr>
     ''0f'' (initial_state Map.empty)) \<noteq>
     Inl (HTTPException 413 ''Avatar image is too large.'') \<and>
   fst (post_users_me_avatar ''u1''
     \<lparr>filename = ''pic.png'', content_type = Some ''image/png'',
      file_read = replicate 2097153 0\<rparr>
     ''0f'' (initial_state Map.empty)) =
     Inl (HTTPException 413 ''Avatar image is too large.'')"
proof (intro conjI)
  have auth: "USERS (initial_state Map.empty) ''u1'' =
      Some \<lparr>id_field = ''u1'', username = ''alice'', avatar_filename = None\<rparr>"
    by (simp add: initial_state_def USERS_initial_def)
  show "fst (post_users_me_avatar ''u1''
     \<lparr>filename = ''pic.png'', content_type = Some ''image/png'',
      file_read = replicate 2097152 0\<rparr>
     ''0f'' (initial_state Map.empty)) \<noteq>
     Inl (HTTPException 413 ''Avatar image is too large.'')"
    using size_ceiling_is_strict [OF auth,
      of "\<lparr>filename = ''pic.png'', content_type = Some ''image/png'',
        file_read = replicate 2097152 0\<rparr>" "''0f''", THEN conjunct2]
    by simp
  show "fst (post_users_me_avatar ''u1''
     \<lparr>filename = ''pic.png'', content_type = Some ''image/png'',
      file_read = replicate 2097153 0\<rparr>
     ''0f'' (initial_state Map.empty)) =
     Inl (HTTPException 413 ''Avatar image is too large.'')"
    using size_ceiling_is_strict [OF auth,
      of "\<lparr>filename = ''pic.png'', content_type = Some ''image/png'',
        file_read = replicate 2097153 0\<rparr>" "''0f''", THEN conjunct2]
    by simp
qed

subsection \<open>Retrieval\<close>

text \<open>
  Claim C8. Retrieval fails in this order: an unknown user id is answered with the
  exception "User not found."; a known user whose pointer is unset with "User has no
  avatar."; a known user whose pointer names a file that is not on the disk with "Avatar
  file not found.". In every other case retrieval returns a response. The three exceptions
  are pairwise different, and retrieval raises no other.
\<close>

theorem retrieve_errors_in_order:
  "(USERS s uid = None \<longrightarrow>
      get_user_avatar uid s = Inl (HTTPException 404 ''User not found.'')) \<and>
   (\<forall>u. USERS s uid = Some u \<and> (avatar_filename u = None \<or> avatar_filename u = Some []) \<longrightarrow>
      get_user_avatar uid s = Inl (HTTPException 404 ''User has no avatar.'')) \<and>
   (\<forall>u fname. USERS s uid = Some u \<and> avatar_filename u = Some fname \<and> fname \<noteq> [] \<and>
      disk s (os_path_join AVATAR_DIR fname) = None \<longrightarrow>
      get_user_avatar uid s = Inl (HTTPException 404 ''Avatar file not found.'')) \<and>
   (\<forall>u fname content. USERS s uid = Some u \<and> avatar_filename u = Some fname \<and> fname \<noteq> [] \<and>
      disk s (os_path_join AVATAR_DIR fname) = Some content \<longrightarrow>
      (\<exists>r. get_user_avatar uid s = Inr r)) \<and>
   (\<forall>e. get_user_avatar uid s = Inl e \<longrightarrow>
      e = HTTPException 404 ''User not found.'' \<or>
      e = HTTPException 404 ''User has no avatar.'' \<or>
      e = HTTPException 404 ''Avatar file not found.'') \<and>
   HTTPException 404 ''User not found.'' \<noteq> HTTPException 404 ''User has no avatar.'' \<and>
   HTTPException 404 ''User not found.'' \<noteq> HTTPException 404 ''Avatar file not found.'' \<and>
   HTTPException 404 ''User has no avatar.'' \<noteq> HTTPException 404 ''Avatar file not found.''"
  by (auto simp: get_user_avatar_def get_user_by_id_def os_path_exists_def Let_def
      split: option.splits if_splits)

theorem retrieve_errors_in_order_witness:
  "get_user_avatar ''u9'' stale_state = Inl (HTTPException 404 ''User not found.'') \<and>
   get_user_avatar ''u2'' stale_state = Inl (HTTPException 404 ''User has no avatar.'') \<and>
   get_user_avatar ''u1'' stale_state = Inl (HTTPException 404 ''Avatar file not found.'')"
proof (intro conjI)
  show "get_user_avatar ''u9'' stale_state = Inl (HTTPException 404 ''User not found.'')"
    using retrieve_errors_in_order [of stale_state "''u9''", THEN conjunct1]
    by (simp add: stale_state_def)
  show "get_user_avatar ''u2'' stale_state = Inl (HTTPException 404 ''User has no avatar.'')"
    using retrieve_errors_in_order [of stale_state "''u2''", THEN conjunct2, THEN conjunct1]
    by (simp add: stale_state_def)
  show "get_user_avatar ''u1'' stale_state = Inl (HTTPException 404 ''Avatar file not found.'')"
    using retrieve_errors_in_order [of stale_state "''u1''", THEN conjunct2, THEN conjunct2,
        THEN conjunct1]
    by (simp add: stale_state_def AVATAR_DIR_def os_path_join_def)
qed

subsection \<open>Accepted uploads\<close>

lemma upload_avatar_Inr:
  assumes "fst (upload_avatar file u h s) = Inr resp"
  shows "allowed_mime (content_type file) \<and> length (file_read file) \<le> MAX_AVATAR_SIZE \<and>
         (\<exists>rec. USERS s (id_field u) = Some rec)"
  using assms
  by (auto simp: upload_avatar_def Let_def split: if_splits option.splits)

lemma safe_ext_cases: "safe_ext file \<in> {''.png'', ''.jpg'', ''.jpeg''}"
  by (auto simp: safe_ext_def Let_def)

lemma endswith_png:
  "e \<in> {''.png'', ''.jpg'', ''.jpeg''} \<Longrightarrow> endswith (x @ e) ''.png'' \<longleftrightarrow> e = ''.png''"
  by (auto simp: endswith_def)

lemma safe_ext_PNG:
  "safe_ext \<lparr>filename = ''pic.PNG'', content_type = Some ''image/png'', file_read = c\<rparr> = ''.png''"
  by (simp add: safe_ext_def splitext_def rfind_def splitext_scan.simps lower_def lower_char_def)

lemma safe_ext_jpg_as_png:
  "safe_ext \<lparr>filename = ''photo.jpg'', content_type = Some ''image/png'', file_read = c\<rparr> = ''.jpg''"
  by (simp add: safe_ext_def splitext_def rfind_def splitext_scan.simps lower_def lower_char_def)


lemma post_users_me_avatar_success:
  assumes "USERS s token = Some cu" and "USERS s (id_field cu) = Some rec"
    and "allowed_mime (content_type file)" and "length (file_read file) \<le> MAX_AVATAR_SIZE"
  shows "post_users_me_avatar token file h s =
     (Inr \<lparr>message = ''Avatar uploaded successfully.'',
           avatar_url = ''/users/'' @ id_field cu @ ''/avatar'',
           user_id = id_field cu\<rparr>,
      \<lparr>USERS = (USERS s)(id_field cu \<mapsto> rec\<lparr>avatar_filename := Some (new_filename file cu h)\<rparr>),
       disk = (disk (remove_old_avatar (avatar_filename rec) s))
                (os_path_join AVATAR_DIR (new_filename file cu h) \<mapsto> file_read file)\<rparr>)"
  using assms
  by (simp add: post_authenticated upload_avatar_success save_new_file_def
      remove_old_avatar_USERS)

lemma post_users_me_avatar_Inr:
  assumes "fst (post_users_me_avatar token file h s) = Inr resp"
  obtains cu rec where "USERS s token = Some cu" and "USERS s (id_field cu) = Some rec"
    and "allowed_mime (content_type file)" and "length (file_read file) \<le> MAX_AVATAR_SIZE"
    and "user_id resp = id_field cu"
proof -
  from assms obtain cu where cu: "USERS s token = Some cu"
    by (cases "USERS s token") (auto simp: post_unauthenticated)
  with assms have up: "fst (upload_avatar file cu h s) = Inr resp"
    by (simp add: post_authenticated)
  from upload_avatar_Inr [OF up] obtain rec where ok: "allowed_mime (content_type file)"
    and le: "length (file_read file) \<le> MAX_AVATAR_SIZE" and rec: "USERS s (id_field cu) = Some rec"
    by blast
  from up have "user_id resp = id_field cu"
    by (auto simp: upload_avatar_success [OF ok le rec])
  with cu rec ok le that show thesis by blast
qed

text \<open>For a plain file name, a stem without dot or slash followed by a dot and a suffix
  without dot or slash, \<open>splitext\<close> returns the stem and the dotted suffix.\<close>

lemma rfind_absent: "c \<notin> set p \<Longrightarrow> rfind p c = - 1"
  by (simp add: rfind_def)

lemma rfind_last_dot:
  assumes "c \<notin> set e"
  shows "rfind (stem @ c # e) c = int (length stem)"
proof -
  have "takeWhile (\<lambda>x. x \<noteq> c) (rev e @ c # rev stem) =
      rev e @ takeWhile (\<lambda>x. x \<noteq> c) (c # rev stem)"
    using assms by (intro takeWhile_append2) auto
  then show ?thesis by (simp add: rfind_def)
qed

lemma splitext_plain:
  assumes "stem \<noteq> []" and "CHR ''.'' \<notin> set stem" and "CHR ''/'' \<notin> set stem"
    and "CHR ''.'' \<notin> set e" and "CHR ''/'' \<notin> set e"
  shows "splitext (stem @ ''.'' @ e) = (stem, ''.'' @ e)"
proof -
  let ?p = "stem @ CHR ''.'' # e"
  have sep: "rfind ?p (CHR ''/'') = - 1"
    using assms(3,5) by (simp add: rfind_absent)
  have dot: "rfind ?p (CHR ''.'') = int (length stem)"
    using assms(4) by (rule rfind_last_dot)
  from assms(1,2) have first: "take 1 (drop 0 ?p) \<noteq> ''.''"
    by (cases stem) auto
  have scan: "splitext_scan ?p 0 (int (length stem))"
    using assms(1) first by (subst splitext_scan.simps) simp
  show ?thesis
    using scan by (simp add: splitext_def sep dot)
qed

text \<open>
  Claim C7 (as amended). After an accepted upload the stored name is the user id, an
  underscore, the token and an extension. The extension is the lower-cased extension of
  the original file name when that lower-cased form is one of .png, .jpg and .jpeg;
  otherwise it is .jpg for image/jpeg and .png for image/png.
\<close>

theorem stored_extension_is_lowercased:
  assumes "fst (post_users_me_avatar token file h s) = Inr resp"
  shows "map_option avatar_filename
           (USERS (snd (post_users_me_avatar token file h s)) (user_id resp)) =
         Some (Some (user_id resp @ ''_'' @ h @
           (if lower (snd (splitext (filename file))) \<in> {''.png'', ''.jpg'', ''.jpeg''}
            then lower (snd (splitext (filename file)))
            else if content_type file = Some ''image/jpeg'' then ''.jpg'' else ''.png''))) \<and>
         (content_type file = Some ''image/jpeg'' \<or> content_type file = Some ''image/png'')"
proof -
  from post_users_me_avatar_Inr [OF assms] obtain cu rec
    where cu: "USERS s token = Some cu" and rec: "USERS s (id_field cu) = Some rec"
      and ok: "allowed_mime (content_type file)"
      and le: "length (file_read file) \<le> MAX_AVATAR_SIZE"
      and uid: "user_id resp = id_field cu"
    by blast
  have "map_option avatar_filename
           (USERS (snd (post_users_me_avatar token file h s)) (user_id resp)) =
        Some (Some (new_filename file cu h))"
    by (simp add: post_users_me_avatar_success [OF cu rec ok le] uid)
  moreover have "new_filename file cu h = user_id resp @ ''_'' @ h @
           (if lower (snd (splitext (filename file))) \<in> {''.png'', ''.jpg'', ''.jpeg''}
            then lower (snd (splitext (filename file)))
            else if content_type file = Some ''image/jpeg'' then ''.jpg'' else ''.png'')"
    by (simp add: new_filename_def safe_ext_def Let_def uid)
  moreover have "content_type file = Some ''image/jpeg'' \<or> content_type file = Some ''image/png''"
    using ok by (auto simp: allowed_mime_iff)
  ultimately show ?thesis by simp
qed

lemma initial_u1:
  "USERS (initial_state files) ''u1'' =
     Some \<lparr>id_field = ''u1'', username = ''alice'', avatar_filename = None\<rparr>"
  by (simp add: initial_state_def USERS_initial_def)

lemma post_pic_PNG:
  "post_users_me_avatar ''u1''
     \<lparr>filename = ''pic.PNG'', content_type = Some ''image/png'', file_read = [1, 2, 3]\<rparr>
     ''0f'' (initial_state Map.empty) =
   (Inr \<lparr>message = ''Avatar uploaded successfully.'', avatar_url = ''/users/u1/avatar'',
         user_id = ''u1''\<rparr>,
    \<lparr>USERS = USERS_initial(''u1'' \<mapsto> \<lparr>id_field = ''u1'', username = ''alice'',
                                      avatar_filename = Some ''u1_0f.png''\<rparr>),
     disk = [''./avatars/u1_0f.png'' \<mapsto> [1, 2, 3]]\<rparr>)"
proof -
  have cu: "USERS (initial_state Map.empty) ''u1'' =
      Some \<lparr>id_field = ''u1'', username = ''alice'', avatar_filename = None\<rparr>"
    by (rule initial_u1)
  have rec: "USERS (initial_state Map.empty)
      (id_field \<lparr>id_field = ''u1'', username = ''alice'', avatar_filename = None\<rparr>) =
      Some \<lparr>id_field = ''u1'', username = ''alice'', avatar_filename = None\<rparr>"
    by (simp add: initial_u1)
  show ?thesis
    by (simp add: post_users_me_avatar_success [OF cu rec] allowed_mime_iff MAX_AVATAR_SIZE_def
        new_filename_def safe_ext_PNG remove_old_avatar_def os_path_join_def AVATAR_DIR_def)
      (simp add: initial_state_def)
qed

theorem stored_extension_is_lowercased_witness:
  "map_option avatar_filename
     (USERS (snd (post_users_me_avatar ''u1''
        \<lparr>filename = ''pic.PNG'', content_type = Some ''image/png'', file_read = [1, 2, 3]\<rparr>
        ''0f'' (initial_state Map.empty))) ''u1'') =
   Some (Some ''u1_0f.png'')"
  using stored_extension_is_lowercased [of "''u1''"
      "\<lparr>filename = ''pic.PNG'', content_type = Some ''image/png'', file_read = [1, 2, 3]\<rparr>"
      "''0f''" "initial_state Map.empty"
      "\<lparr>message = ''Avatar uploaded successfully.'', avatar_url = ''/users/u1/avatar'',
         user_id = ''u1''\<rparr>"]
  by (simp add: post_pic_PNG)

text \<open>
  The claim as written fails for the file name pic.PNG: its extension is .PNG, which is
  accepted when compared case-insensitively, and the stored extension is .png.
\<close>

theorem stored_extension_counterexample:
  "map_option avatar_filename
     (USERS (snd (post_users_me_avatar ''u1''
        \<lparr>filename = ''pic.PNG'', content_type = Some ''image/png'', file_read = [1, 2, 3]\<rparr>
        ''0f'' (initial_state Map.empty))) ''u1'') =
   Some (Some ''u1_0f.png'') \<and>
   snd (splitext ''pic.PNG'') = ''.PNG'' \<and>
   lower (snd (splitext ''pic.PNG'')) \<in> {''.png'', ''.jpg'', ''.jpeg''} \<and>
   ''u1_0f.png'' \<noteq> ''u1'' @ ''_'' @ ''0f'' @ snd (splitext ''pic.PNG'')"
  by (simp add: post_pic_PNG splitext_def rfind_def splitext_scan.simps lower_def lower_char_def)

subsection \<open>Upload followed by retrieval\<close>

lemma new_filename_nonempty: "new_filename file cu h \<noteq> []"
  by (simp add: new_filename_def)

lemma media_type_of_new_filename:
  "endswith (new_filename file cu h) ''.png'' \<longleftrightarrow> safe_ext file = ''.png''"
  using endswith_png [of "safe_ext file" "id_field cu @ ''_'' @ h"] safe_ext_cases [of "file"]
  by (simp add: new_filename_def)

lemma declared_type_agrees:
  assumes "content_type file = Some ''image/jpeg'' \<or> content_type file = Some ''image/png''"
  shows "Some (if safe_ext file = ''.png'' then ''image/png'' else ''image/jpeg'') =
           content_type file \<longleftrightarrow>
         (lower (snd (splitext (filename file))) \<notin> {''.png'', ''.jpg'', ''.jpeg''} \<or>
          (lower (snd (splitext (filename file))) = ''.png'' \<and>
             content_type file = Some ''image/png'') \<or>
          (lower (snd (splitext (filename file))) \<in> {''.jpg'', ''.jpeg''} \<and>
             content_type file = Some ''image/jpeg''))"
  using assms by (auto simp: safe_ext_def Let_def)

text \<open>
  Claim C4 (as amended). After a successful upload, retrieval of the uploading user
  returns the stored file, whose content is exactly the uploaded bytes. The media type it
  reports is read off the stored extension: image/png for .png, image/jpeg otherwise. It
  equals the declared media type exactly when the lower-cased extension of the original
  file name is none of .png, .jpg, .jpeg, or is .png with image/png declared, or is .jpg or
  .jpeg with image/jpeg declared.
\<close>

theorem upload_then_retrieve:
  assumes "fst (post_users_me_avatar token file h s) = Inr resp"
  shows "get_user_avatar (user_id resp) (snd (post_users_me_avatar token file h s)) =
           Inr \<lparr>response_path = os_path_join AVATAR_DIR (user_id resp @ ''_'' @ h @ safe_ext file),
                media_type = (if safe_ext file = ''.png'' then ''image/png'' else ''image/jpeg''),
                response_filename = user_id resp @ ''_'' @ h @ safe_ext file\<rparr> \<and>
         response_body
           \<lparr>response_path = os_path_join AVATAR_DIR (user_id resp @ ''_'' @ h @ safe_ext file),
            media_type = (if safe_ext file = ''.png'' then ''image/png'' else ''image/jpeg''),
            response_filename = user_id resp @ ''_'' @ h @ safe_ext file\<rparr>
           (snd (post_users_me_avatar token file h s)) = Some (file_read file) \<and>
         (Some (if safe_ext file = ''.png'' then ''image/png'' else ''image/jpeg'') =
            content_type file \<longleftrightarrow>
          (lower (snd (splitext (filename file))) \<notin> {''.png'', ''.jpg'', ''.jpeg''} \<or>
           (lower (snd (splitext (filename file))) = ''.png'' \<and>
              content_type file = Some ''image/png'') \<or>
           (lower (snd (splitext (filename file))) \<in> {''.jpg'', ''.jpeg''} \<and>
              content_type file = Some ''image/jpeg'')))"
proof -
  from post_users_me_avatar_Inr [OF assms] obtain cu rec
    where cu: "USERS s token = Some cu" and rec: "USERS s (id_field cu) = Some rec"
      and ok: "allowed_mime (content_type file)"
      and le: "length (file_read file) \<le> MAX_AVATAR_SIZE"
      and uid: "user_id resp = id_field cu"
    by blast
  have name: "user_id resp @ ''_'' @ h @ safe_ext file = new_filename file cu h"
    by (simp add: new_filename_def uid)
  have declared: "content_type file = Some ''image/jpeg'' \<or> content_type file = Some ''image/png''"
    using ok by (auto simp: allowed_mime_iff)
  show ?thesis
    unfolding name
    by (simp add: post_users_me_avatar_success [OF cu rec ok le] uid get_user_avatar_def
        get_user_by_id_def new_filename_nonempty os_path_exists_def media_type_of_new_filename
        response_body_def declared_type_agrees [OF declared])
qed

theorem upload_then_retrieve_witness:
  "get_user_avatar ''u1'' (snd (post_users_me_avatar ''u1''
        \<lparr>filename = ''pic.PNG'', content_type = Some ''image/png'', file_read = [1, 2, 3]\<rparr>
        ''0f'' (initial_state Map.empty))) =
     Inr \<lparr>response_path = ''./avatars/u1_0f.png'', media_type = ''image/png'',
          response_filename = ''u1_0f.png''\<rparr> \<and>
   response_body \<lparr>response_path = ''./avatars/u1_0f.png'', media_type = ''image/png'',
          response_filename = ''u1_0f.png''\<rparr>
     (snd (post_users_me_avatar ''u1''
        \<lparr>filename = ''pic.PNG'', content_type = Some ''image/png'', file_read = [1, 2, 3]\<rparr>
        ''0f'' (initial_state Map.empty))) = Some [1, 2, 3]"
  using upload_then_retrieve [of "''u1''"
      "\<lparr>filename = ''pic.PNG'', content_type = Some ''image/png'', file_read = [1, 2, 3]\<rparr>"
      "''0f''" "initial_state Map.empty"
      "\<lparr>message = ''Avatar uploaded successfully.'', avatar_url = ''/users/u1/avatar'',
         user_id = ''u1''\<rparr>"]
  by (simp add: post_pic_PNG safe_ext_PNG os_path_join_def AVATAR_DIR_def)

text \<open>
  The claim as written fails for a file named photo.jpg that is declared as image/png:
  the upload is accepted and retrieval reports image/jpeg.
\<close>

lemma post_photo_jpg_as_png:
  "post_users_me_avatar ''u1''
     \<lparr>filename = ''photo.jpg'', content_type = Some ''image/png'', file_read = [1, 2, 3]\<rparr>
     ''0f'' (initial_state Map.empty) =
   (Inr \<lparr>message = ''Avatar uploaded successfully.'', avatar_url = ''/users/u1/avatar'',
         user_id = ''u1''\<rparr>,
    \<lparr>USERS = USERS_initial(''u1'' \<mapsto> \<lparr>id_field = ''u1'', username = ''alice'',
                                      avatar_filename = Some ''u1_0f.jpg''\<rparr>),
     disk = [''./avatars/u1_0f.jpg'' \<mapsto> [1, 2, 3]]\<rparr>)"
proof -
  have cu: "USERS (initial_state Map.empty) ''u1'' =
      Some \<lparr>id_field = ''u1'', username = ''alice'', avatar_filename = None\<rparr>"
    by (rule initial_u1)
  have rec: "USERS (initial_state Map.empty)
      (id_field \<lparr>id_field = ''u1'', username = ''alice'', avatar_filename = None\<rparr>) =
      Some \<lparr>id_field = ''u1'', username = ''alice'', avatar_filename = None\<rparr>"
    by (simp add: initial_u1)
  show ?thesis
    by (simp add: post_users_me_avatar_success [OF cu rec] allowed_mime_iff MAX_AVATAR_SIZE_def
        new_filename_def safe_ext_jpg_as_png remove_old_avatar_def os_path_join_def
        AVATAR_DIR_def)
      (simp add: initial_state_def)
qed

theorem upload_then_retrieve_counterexample:
  "fst (post_users_me_avatar ''u1''
        \<lparr>filename = ''photo.jpg'', content_type = Some ''image/png'', file_read = [1, 2, 3]\<rparr>
        ''0f'' (initial_state Map.empty)) =
     Inr \<lparr>message = ''Avatar uploaded successfully.'', avatar_url = ''/users/u1/avatar'',
          user_id = ''u1''\<rparr> \<and>
   get_user_avatar ''u1'' (snd (post_users_me_avatar ''u1''
        \<lparr>filename = ''photo.jpg'', content_type = Some ''image/png'', file_read = [1, 2, 3]\<rparr>
        ''0f'' (initial_state Map.empty))) =
     Inr \<lparr>response_path = ''./avatars/u1_0f.jpg'', media_type = ''image/jpeg'',
          response_filename = ''u1_0f.jpg''\<rparr> \<and>
   Some (media_type \<lparr>response_path = ''./avatars/u1_0f.jpg'', media_type = ''image/jpeg'',
          response_filename = ''u1_0f.jpg''\<rparr>) \<noteq>
     content_type \<lparr>filename = ''photo.jpg'', content_type = Some ''image/png'',
          file_read = [1, 2, 3]\<rparr>"
  by (simp add: post_photo_jpg_as_png get_user_avatar_def get_user_by_id_def os_path_exists_def
      os_path_join_def AVATAR_DIR_def endswith_def)

subsection \<open>The order of the mutations of an upload\<close>

lemma upload_avatar_states_success:
  assumes "allowed_mime (content_type file)" and "length (file_read file) \<le> MAX_AVATAR_SIZE"
    and "USERS s (id_field u) = Some rec"
  shows "upload_avatar_states file u h s =
     [s,
      remove_old_avatar (avatar_filename rec) s,
      save_new_file (os_path_join AVATAR_DIR (new_filename file u h)) (file_read file)
        (remove_old_avatar (avatar_filename rec) s),
      (save_new_file (os_path_join AVATAR_DIR (new_filename file u h)) (file_read file)
         (remove_old_avatar (avatar_filename rec) s))
       \<lparr>USERS := (USERS s)(id_field u \<mapsto> rec\<lparr>avatar_filename := Some (new_filename file u h)\<rparr>)\<rparr>]"
  using assms
  by (simp add: upload_avatar_states_def Let_def set_avatar_filename_def
      save_new_file_USERS remove_old_avatar_USERS)

lemma remove_old_avatar_Some:
  "old \<noteq> [] \<Longrightarrow>
   remove_old_avatar (Some old) s = s\<lparr>disk := (disk s)(os_path_join AVATAR_DIR old := None)\<rparr>"
  by (cases "disk s (os_path_join AVATAR_DIR old)")
     (simp_all add: remove_old_avatar_def os_remove_def Let_def fun_upd_idem)

text \<open>The list of states starts with the state the handler was given and ends with the
  state it returns, whatever the outcome.\<close>

lemma upload_avatar_states_last:
  "snd (upload_avatar file u h s) = last (upload_avatar_states file u h s)"
  by (simp add: upload_avatar_def upload_avatar_states_def Let_def set_avatar_filename_def
      save_new_file_USERS remove_old_avatar_USERS split: option.splits)

lemma upload_avatar_states_first:
  "hd (upload_avatar_states file u h s) = s"
  by (simp add: upload_avatar_states_def Let_def split: option.splits sum.splits)

text \<open>
  Claim C1 (as amended). When a user who has an avatar uploads successfully, the handler
  first removes the old file, then writes the new file, and only then sets the pointer to
  the new name: after the first step the pointer still names the removed file. When the
  handler has returned, the pointer names the new file, which exists on the disk.
\<close>

theorem old_blob_evicted_before_swap:
  assumes "fst (upload_avatar file u h s) = Inr resp"
    and "USERS s (id_field u) = Some rec"
    and "avatar_filename rec = Some old" and "old \<noteq> []"
  shows "upload_avatar_states file u h s =
           [s,
            s\<lparr>disk := (disk s)(os_path_join AVATAR_DIR old := None)\<rparr>,
            s\<lparr>disk := ((disk s)(os_path_join AVATAR_DIR old := None))
                        (os_path_join AVATAR_DIR (new_filename file u h) \<mapsto> file_read file)\<rparr>,
            \<lparr>USERS = (USERS s)(id_field u \<mapsto>
                        rec\<lparr>avatar_filename := Some (new_filename file u h)\<rparr>),
             disk = ((disk s)(os_path_join AVATAR_DIR old := None))
                      (os_path_join AVATAR_DIR (new_filename file u h) \<mapsto> file_read file)\<rparr>] \<and>
         snd (upload_avatar file u h s) = last (upload_avatar_states file u h s) \<and>
         avatar_pointer_valid (id_field u) (snd (upload_avatar file u h s))"
proof -
  from upload_avatar_Inr [OF assms(1)]
  have ok: "allowed_mime (content_type file)"
    and le: "length (file_read file) \<le> MAX_AVATAR_SIZE"
    by simp_all
  note states = upload_avatar_states_success [OF ok le assms(2), of h]
  note final = upload_avatar_success [OF ok le assms(2), of h]
  have trace: "upload_avatar_states file u h s =
           [s,
            s\<lparr>disk := (disk s)(os_path_join AVATAR_DIR old := None)\<rparr>,
            s\<lparr>disk := ((disk s)(os_path_join AVATAR_DIR old := None))
                        (os_path_join AVATAR_DIR (new_filename file u h) \<mapsto> file_read file)\<rparr>,
            \<lparr>USERS = (USERS s)(id_field u \<mapsto>
                        rec\<lparr>avatar_filename := Some (new_filename file u h)\<rparr>),
             disk = ((disk s)(os_path_join AVATAR_DIR old := None))
                      (os_path_join AVATAR_DIR (new_filename file u h) \<mapsto> file_read file)\<rparr>]"
    by (simp add: states assms(3) remove_old_avatar_Some [OF assms(4)] save_new_file_def)
  have fin: "snd (upload_avatar file u h s) = last (upload_avatar_states file u h s)"
    by (simp add: states final)
  have "avatar_pointer_valid (id_field u) (last (upload_avatar_states file u h s))"
    by (simp add: trace avatar_pointer_valid_def os_path_exists_def new_filename_nonempty)
  with trace fin show ?thesis by simp
qed

lemma state_with_avatar_u1: "USERS state_with_avatar ''u1'' = Some alice_with_avatar"
  by (simp add: state_with_avatar_def)

lemma safe_ext_next_jpg:
  "safe_ext \<lparr>filename = ''next.jpg'', content_type = Some ''image/jpeg'', file_read = c\<rparr> = ''.jpg''"
  by (simp add: safe_ext_def splitext_def rfind_def splitext_scan.simps lower_def lower_char_def)

lemma second_upload_succeeds:
  "fst (upload_avatar
     \<lparr>filename = ''next.jpg'', content_type = Some ''image/jpeg'', file_read = [4, 5, 6]\<rparr>
     alice_with_avatar ''0b'' state_with_avatar) =
   Inr \<lparr>message = ''Avatar uploaded successfully.'', avatar_url = ''/users/u1/avatar'',
        user_id = ''u1''\<rparr>"
proof -
  have rec: "USERS state_with_avatar (id_field alice_with_avatar) = Some alice_with_avatar"
    by (simp add: state_with_avatar_def alice_with_avatar_def)
  show ?thesis
    by (simp add: upload_avatar_success [OF _ _ rec] allowed_mime_iff MAX_AVATAR_SIZE_def)
      (simp add: alice_with_avatar_def)
qed

theorem old_blob_evicted_before_swap_witness:
  "upload_avatar_states
     \<lparr>filename = ''next.jpg'', content_type = Some ''image/jpeg'', file_read = [4, 5, 6]\<rparr>
     alice_with_avatar ''0b'' state_with_avatar =
     [state_with_avatar,
      state_with_avatar\<lparr>disk := Map.empty\<rparr>,
      state_with_avatar\<lparr>disk := [''./avatars/u1_0b.jpg'' \<mapsto> [4, 5, 6]]\<rparr>,
      \<lparr>USERS = USERS_initial(''u1'' \<mapsto> alice_with_avatar\<lparr>avatar_filename := Some ''u1_0b.jpg''\<rparr>),
       disk = [''./avatars/u1_0b.jpg'' \<mapsto> [4, 5, 6]]\<rparr>] \<and>
   avatar_pointer_valid ''u1'' (snd (upload_avatar
     \<lparr>filename = ''next.jpg'', content_type = Some ''image/jpeg'', file_read = [4, 5, 6]\<rparr>
     alice_with_avatar ''0b'' state_with_avatar))"
proof -
  have rec: "USERS state_with_avatar (id_field alice_with_avatar) = Some alice_with_avatar"
    by (simp add: state_with_avatar_def alice_with_avatar_def)
  have old: "avatar_filename alice_with_avatar = Some ''u1_0a.png''"
    by (simp add: alice_with_avatar_def)
  have ne: "''u1_0a.png'' \<noteq> []" by simp
  have id: "id_field alice_with_avatar = ''u1''" by (simp add: alice_with_avatar_def)
  have upd: "(USERS state_with_avatar)(''u1'' \<mapsto> r) = USERS_initial(''u1'' \<mapsto> r)" for r
    by (simp add: state_with_avatar_def)
  have dsk: "(disk state_with_avatar)(''./avatars/u1_0a.png'' := None) = Map.empty"
    by (simp add: state_with_avatar_def)
  note inst = old_blob_evicted_before_swap [OF second_upload_succeeds rec old ne]
  show ?thesis
    using inst [THEN conjunct1] inst [THEN conjunct2, THEN conjunct2]
    by (simp add: new_filename_def safe_ext_next_jpg os_path_join_def AVATAR_DIR_def id upd dsk)
qed

text \<open>
  The claim as written fails: in the state after the first mutation the old file is gone
  while the pointer still names it, so the pointer is not valid there, nor in the state
  after the second mutation.
\<close>

theorem eviction_after_swap_counterexample:
  "avatar_pointer_valid ''u1'' state_with_avatar \<and>
   fst (upload_avatar
     \<lparr>filename = ''next.jpg'', content_type = Some ''image/jpeg'', file_read = [4, 5, 6]\<rparr>
     alice_with_avatar ''0b'' state_with_avatar) =
     Inr \<lparr>message = ''Avatar uploaded successfully.'', avatar_url = ''/users/u1/avatar'',
          user_id = ''u1''\<rparr> \<and>
   USERS (upload_avatar_states
     \<lparr>filename = ''next.jpg'', content_type = Some ''image/jpeg'', file_read = [4, 5, 6]\<rparr>
     alice_with_avatar ''0b'' state_with_avatar ! 1) ''u1'' = Some alice_with_avatar \<and>
   avatar_filename alice_with_avatar = Some ''u1_0a.png'' \<and>
   disk (upload_avatar_states
     \<lparr>filename = ''next.jpg'', content_type = Some ''image/jpeg'', file_read = [4, 5, 6]\<rparr>
     alice_with_avatar ''0b'' state_with_avatar ! 1) (os_path_join AVATAR_DIR ''u1_0a.png'') = None \<and>
   \<not> avatar_pointer_valid ''u1'' (upload_avatar_states
     \<lparr>filename = ''next.jpg'', content_type = Some ''image/jpeg'', file_read = [4, 5, 6]\<rparr>
     alice_with_avatar ''0b'' state_with_avatar ! 1) \<and>
   \<not> avatar_pointer_valid ''u1'' (upload_avatar_states
     \<lparr>filename = ''next.jpg'', content_type = Some ''image/jpeg'', file_read = [4, 5, 6]\<rparr>
     alice_with_avatar ''0b'' state_with_avatar ! 2)"
proof -
  have rec: "USERS state_with_avatar (id_field alice_with_avatar) = Some alice_with_avatar"
    by (simp add: state_with_avatar_def alice_with_avatar_def)
  have ok: "allowed_mime (content_type
     \<lparr>filename = ''next.jpg'', content_type = Some ''image/jpeg'', file_read = [4, 5, 6]\<rparr>)"
    by (simp add: allowed_mime_iff)
  have le: "length (file_read
     \<lparr>filename = ''next.jpg'', content_type = Some ''image/jpeg'', file_read = [4, 5, 6 :: 8 word]\<rparr>)
     \<le> MAX_AVATAR_SIZE"
    by (simp add: MAX_AVATAR_SIZE_def)
  show ?thesis
    by (simp add: second_upload_succeeds upload_avatar_states_success [OF ok le rec])
      (simp add: alice_with_avatar_def state_with_avatar_def avatar_pointer_valid_def
        remove_old_avatar_def os_remove_def os_path_exists_def os_path_join_def AVATAR_DIR_def
        save_new_file_def new_filename_def safe_ext_next_jpg)
qed

subsection \<open>The frame of an upload\<close>

lemma blob_named_forI:
  assumes "is_uuid4_hex h" and "e \<in> {''.png'', ''.jpg'', ''.jpeg''}"
  shows "blob_named_for uid (uid @ ''_'' @ h @ e)"
  using assms by (auto simp: blob_named_for_def Let_def is_uuid4_hex_def)

lemma blob_named_forD:
  assumes "blob_named_for uid fname"
  obtains h e where "length h = 32" and "e \<in> {''.png'', ''.jpg'', ''.jpeg''}"
    and "fname = uid @ ''_'' @ h @ e"
proof -
  let ?n = "length uid + 1"
  let ?rest = "drop ?n fname"
  from assms have pre: "take ?n fname = uid @ ''_''" and hex: "is_uuid4_hex (take 32 ?rest)"
    and ext: "drop 32 ?rest \<in> {''.png'', ''.jpg'', ''.jpeg''}"
    by (simp_all add: blob_named_for_def Let_def)
  have "fname = take ?n fname @ take 32 ?rest @ drop 32 ?rest"
    by (simp only: append_take_drop_id)
  then have "fname = uid @ ''_'' @ take 32 ?rest @ drop 32 ?rest"
    using pre by simp
  moreover have "length (take 32 ?rest) = 32" using hex by (simp add: is_uuid4_hex_def)
  ultimately show thesis using ext that by blast
qed

lemma accepted_extension_suffix:
  assumes "x @ e1 = y @ e2"
    and "e1 \<in> {''.png'', ''.jpg'', ''.jpeg''}" and "e2 \<in> {''.png'', ''.jpg'', ''.jpeg''}"
  shows "e1 = e2 \<and> x = y"
proof -
  from assms(1) have "rev e1 @ rev x = rev e2 @ rev y"
    by (metis rev_append)
  with assms(2,3) show ?thesis
    by auto
qed

lemma blob_name_inj:
  assumes "u @ ''_'' @ h1 @ e1 = v @ ''_'' @ h2 @ e2"
    and "length h1 = length h2"
    and "e1 \<in> {''.png'', ''.jpg'', ''.jpeg''}" and "e2 \<in> {''.png'', ''.jpg'', ''.jpeg''}"
  shows "u = v \<and> h1 = h2 \<and> e1 = e2"
proof -
  from assms(1) have "(u @ ''_'' @ h1) @ e1 = (v @ ''_'' @ h2) @ e2" by simp
  from accepted_extension_suffix [OF this assms(3,4)]
  have e: "e1 = e2" and "u @ ''_'' @ h1 = v @ ''_'' @ h2" by simp_all
  then have "(u @ ''_'') @ h1 = (v @ ''_'') @ h2" by simp
  with assms(2) have "u @ ''_'' = v @ ''_''" and "h1 = h2" by simp_all
  with e show ?thesis by simp
qed

lemma blob_named_for_unique:
  assumes "blob_named_for u fname" and "blob_named_for v fname"
  shows "u = v"
proof -
  from assms(1) obtain h1 e1 where 1: "length h1 = 32" "e1 \<in> {''.png'', ''.jpg'', ''.jpeg''}"
    "fname = u @ ''_'' @ h1 @ e1" by (rule blob_named_forD)
  from assms(2) obtain h2 e2 where 2: "length h2 = 32" "e2 \<in> {''.png'', ''.jpg'', ''.jpeg''}"
    "fname = v @ ''_'' @ h2 @ e2" by (rule blob_named_forD)
  from 1 2 have "u @ ''_'' @ h1 @ e1 = v @ ''_'' @ h2 @ e2" and "length h1 = length h2"
    by simp_all
  from blob_name_inj [OF this 1(2) 2(2)] show ?thesis by simp
qed

lemma os_path_join_AVATAR_DIR_inj:
  assumes "os_path_join AVATAR_DIR a = os_path_join AVATAR_DIR b"
  shows "a = b"
  using assms
  by (cases a; cases b) (auto simp: os_path_join_def AVATAR_DIR_def split: if_splits)

lemma new_filename_named_for:
  "is_uuid4_hex h \<Longrightarrow> blob_named_for (id_field u) (new_filename file u h)"
  using blob_named_forI [OF _ safe_ext_cases] by (simp add: new_filename_def)

lemma example_hex_a_uuid: "is_uuid4_hex example_hex_a"
  by (simp add: is_uuid4_hex_def example_hex_a_def)

lemma example_hex_b_uuid: "is_uuid4_hex example_hex_b"
  by (simp add: is_uuid4_hex_def example_hex_b_def)


lemma safe_ext_example_jpeg: "safe_ext example_jpeg = ''.jpg''"
  by (simp add: example_jpeg_def safe_ext_next_jpg)

text \<open>
  Claim C10. A successful upload by a user whose old pointer, if any, has the form of line
  111 for that user, with a token as \<open>uuid4().hex\<close> returns it, changes only that
  user's state: the pointer of the user's record is set to the new name and the rest of the
  record is kept; the record of every other user is unchanged; one file named for the user
  is written with the uploaded bytes; every path other than the new one and the one the
  old pointer named keeps its content; in particular every file named for another user is
  unchanged.
\<close>

theorem upload_changes_only_own_state:
  assumes "fst (upload_avatar file u h s) = Inr resp"
    and "is_uuid4_hex h"
    and "USERS s (id_field u) = Some rec"
    and "case avatar_filename rec of None \<Rightarrow> True | Some old \<Rightarrow> blob_named_for (id_field u) old"
  shows "USERS (snd (upload_avatar file u h s)) (id_field u) =
           Some (rec\<lparr>avatar_filename := Some (new_filename file u h)\<rparr>) \<and>
         (\<forall>v. v \<noteq> id_field u \<longrightarrow> USERS (snd (upload_avatar file u h s)) v = USERS s v) \<and>
         blob_named_for (id_field u) (new_filename file u h) \<and>
         disk (snd (upload_avatar file u h s)) (os_path_join AVATAR_DIR (new_filename file u h)) =
           Some (file_read file) \<and>
         (\<forall>p. p \<noteq> os_path_join AVATAR_DIR (new_filename file u h) \<and>
              (\<forall>old. avatar_filename rec = Some old \<longrightarrow> p \<noteq> os_path_join AVATAR_DIR old) \<longrightarrow>
              disk (snd (upload_avatar file u h s)) p = disk s p) \<and>
         (\<forall>v fname. v \<noteq> id_field u \<and> blob_named_for v fname \<longrightarrow>
              disk (snd (upload_avatar file u h s)) (os_path_join AVATAR_DIR fname) =
              disk s (os_path_join AVATAR_DIR fname))"
proof -
  from upload_avatar_Inr [OF assms(1)]
  have ok: "allowed_mime (content_type file)"
    and le: "length (file_read file) \<le> MAX_AVATAR_SIZE"
    by simp_all
  let ?new = "os_path_join AVATAR_DIR (new_filename file u h)"
  let ?s' = "snd (upload_avatar file u h s)"
  have users: "USERS ?s' =
      (USERS s)(id_field u \<mapsto> rec\<lparr>avatar_filename := Some (new_filename file u h)\<rparr>)"
    by (simp add: upload_avatar_success [OF ok le assms(3)])
  have dsk: "disk ?s' = (disk (remove_old_avatar (avatar_filename rec) s))(?new \<mapsto> file_read file)"
    by (simp add: upload_avatar_success [OF ok le assms(3)] save_new_file_def)
  have own: "blob_named_for (id_field u) (new_filename file u h)"
    using assms(2) by (rule new_filename_named_for)
  have frame: "disk ?s' p = disk s p"
    if "p \<noteq> ?new" and "\<forall>old. avatar_filename rec = Some old \<longrightarrow> p \<noteq> os_path_join AVATAR_DIR old"
    for p
    using that by (simp add: dsk remove_old_avatar_disk split: option.splits)
  have others: "disk ?s' (os_path_join AVATAR_DIR fname) = disk s (os_path_join AVATAR_DIR fname)"
    if "v \<noteq> id_field u" and "blob_named_for v fname" for v fname
  proof (rule frame)
    show "os_path_join AVATAR_DIR fname \<noteq> ?new"
    proof
      assume "os_path_join AVATAR_DIR fname = ?new"
      then have "fname = new_filename file u h" by (rule os_path_join_AVATAR_DIR_inj)
      with own that(2) have "v = id_field u" by (auto dest: blob_named_for_unique)
      with that(1) show False by simp
    qed
    show "\<forall>old. avatar_filename rec = Some old \<longrightarrow>
        os_path_join AVATAR_DIR fname \<noteq> os_path_join AVATAR_DIR old"
    proof (intro allI impI notI)
      fix old
      assume old: "avatar_filename rec = Some old"
        and "os_path_join AVATAR_DIR fname = os_path_join AVATAR_DIR old"
      then have "fname = old" by (auto dest: os_path_join_AVATAR_DIR_inj)
      moreover from assms(4) old have "blob_named_for (id_field u) old" by simp
      ultimately have "v = id_field u" using that(2) by (auto dest: blob_named_for_unique)
      with that(1) show False by simp
    qed
  qed
  have swapped: "USERS ?s' (id_field u) =
      Some (rec\<lparr>avatar_filename := Some (new_filename file u h)\<rparr>)"
    by (simp add: users)
  have records: "\<forall>v. v \<noteq> id_field u \<longrightarrow> USERS ?s' v = USERS s v"
    by (simp add: users)
  have written: "disk ?s' ?new = Some (file_read file)"
    by (simp add: dsk)
  show ?thesis
    using swapped records own written frame others by blast
qed

theorem upload_changes_only_own_state_witness:
  "USERS (snd (upload_avatar example_jpeg alice_named example_hex_b state_two_avatars)) ''u2'' =
     Some bob_named \<and>
   disk (snd (upload_avatar example_jpeg alice_named example_hex_b state_two_avatars))
     (os_path_join AVATAR_DIR (''u2_'' @ example_hex_a @ ''.jpg'')) = Some [7, 8] \<and>
   disk (snd (upload_avatar example_jpeg alice_named example_hex_b state_two_avatars))
     (os_path_join AVATAR_DIR (''u1_'' @ example_hex_b @ ''.jpg'')) = Some [4, 5, 6] \<and>
   blob_named_for ''u1'' (''u1_'' @ example_hex_b @ ''.jpg'')"
proof -
  have rec: "USERS state_two_avatars (id_field alice_named) = Some alice_named"
    by (simp add: state_two_avatars_def alice_named_def)
  have ok: "allowed_mime (content_type example_jpeg)"
    by (simp add: example_jpeg_def allowed_mime_iff)
  have le: "length (file_read example_jpeg) \<le> MAX_AVATAR_SIZE"
    by (simp add: example_jpeg_def MAX_AVATAR_SIZE_def)
  have up: "fst (upload_avatar example_jpeg alice_named example_hex_b state_two_avatars) =
      Inr \<lparr>message = ''Avatar uploaded successfully.'',
           avatar_url = ''/users/'' @ id_field alice_named @ ''/avatar'',
           user_id = id_field alice_named\<rparr>"
    by (simp add: upload_avatar_success [OF ok le rec])
  have old: "case avatar_filename alice_named of None \<Rightarrow> True
      | Some old \<Rightarrow> blob_named_for (id_field alice_named) old"
    using blob_named_forI [OF example_hex_a_uuid, of "''.png''" "''u1''"]
    by (simp add: alice_named_def)
  have bob: "blob_named_for ''u2'' (''u2_'' @ example_hex_a @ ''.jpg'')"
    using blob_named_forI [OF example_hex_a_uuid, of "''.jpg''" "''u2''"] by simp
  have name: "new_filename example_jpeg alice_named example_hex_b =
      ''u1_'' @ example_hex_b @ ''.jpg''"
    by (simp add: new_filename_def safe_ext_example_jpeg alice_named_def)
  have id: "id_field alice_named = ''u1''" by (simp add: alice_named_def)
  note inst = upload_changes_only_own_state [OF up example_hex_b_uuid rec old]
  from inst have 1: "USERS (snd (upload_avatar example_jpeg alice_named example_hex_b
      state_two_avatars)) ''u2'' = USERS state_two_avatars ''u2''"
    by (simp add: id)
  note others = inst [THEN conjunct2, THEN conjunct2, THEN conjunct2, THEN conjunct2,
      THEN conjunct2, rule_format, of "''u2''" "''u2_'' @ example_hex_a @ ''.jpg''"]
  from others bob have 2: "disk (snd (upload_avatar example_jpeg alice_named example_hex_b
      state_two_avatars)) (os_path_join AVATAR_DIR (''u2_'' @ example_hex_a @ ''.jpg'')) =
      disk state_two_avatars (os_path_join AVATAR_DIR (''u2_'' @ example_hex_a @ ''.jpg''))"
    by (simp add: id)
  from inst have 3: "disk (snd (upload_avatar example_jpeg alice_named example_hex_b
      state_two_avatars)) (os_path_join AVATAR_DIR (''u1_'' @ example_hex_b @ ''.jpg'')) =
      Some (file_read example_jpeg)"
    by (simp add: name)
  from inst have 4: "blob_named_for ''u1'' (''u1_'' @ example_hex_b @ ''.jpg'')"
    by (simp add: name id)
  from 1 2 3 4 show ?thesis
    by (simp add: state_two_avatars_def example_jpeg_def)
qed

subsection \<open>Sequences of uploads by one user\<close>

lemma post_users_me_avatar_error_state:
  assumes "fst (post_users_me_avatar token file h s) = Inl e"
  shows "snd (post_users_me_avatar token file h s) = s"
proof (cases "USERS s token")
  case None
  then show ?thesis by (simp add: post_unauthenticated)
next
  case (Some cu)
  with assms have "upload_avatar file cu h s = (Inl e, snd (upload_avatar file cu h s))"
    by (simp add: post_authenticated prod_eq_iff)
  then have "snd (upload_avatar file cu h s) = s" by (rule upload_avatar_error_state)
  with Some show ?thesis by (simp add: post_authenticated)
qed

lemma post_step:
  assumes "USERS s token = Some rec" and "id_field rec = token"
    and "fst (post_users_me_avatar token file h s) = Inr resp"
  shows "snd (post_users_me_avatar token file h s) =
     \<lparr>USERS = (USERS s)(token \<mapsto> rec\<lparr>avatar_filename := Some (stored_name token (file, h))\<rparr>),
      disk = (disk (remove_old_avatar (avatar_filename rec) s))
               (stored_path token (file, h) \<mapsto> file_read file)\<rparr>"
proof -
  from post_users_me_avatar_Inr [OF assms(3)] obtain cu rec'
    where cu: "USERS s token = Some cu" and rec': "USERS s (id_field cu) = Some rec'"
      and ok: "allowed_mime (content_type file)"
      and le: "length (file_read file) \<le> MAX_AVATAR_SIZE"
    by blast
  from cu assms(1,2) rec' have "cu = rec" and "rec' = rec" by simp_all
  with post_users_me_avatar_success [OF cu rec' ok le, of h] assms(2)
  show ?thesis by (simp add: stored_name_def stored_path_def new_filename_def)
qed














text \<open>The well-formedness of the directory holds at start-up and is kept by every
  request that draws a token of 32 hexadecimal digits.\<close>

lemma directory_wf_initial: "directory_wf (initial_state files)"
  by (simp add: directory_wf_def initial_state_def USERS_initial_def)

lemma directory_wf_post:
  assumes "directory_wf s" and "is_uuid4_hex h"
  shows "directory_wf (snd (post_users_me_avatar token file h s))"
proof (cases "fst (post_users_me_avatar token file h s)")
  case (Inl e)
  then show ?thesis using assms(1) by (simp add: post_users_me_avatar_error_state)
next
  case (Inr resp)
  from post_users_me_avatar_Inr [OF Inr] obtain cu where cu: "USERS s token = Some cu"
    by blast
  with assms(1) have id: "id_field cu = token" by (simp add: directory_wf_def)
  have named: "blob_named_for token (stored_name token (file, h))"
    using blob_named_forI [OF assms(2) safe_ext_cases, of token "file"]
    by (simp add: stored_name_def)
  show ?thesis
    using assms(1) named id
    by (auto simp: post_step [OF cu id Inr] directory_wf_def)
qed






end
